theory Spec2Isabelle
  imports Complex_Main "HOL-Library.AList"
begin

section \<open>CustomMarketMaker: a shallow embedding of custom\_mm\_strategy.py\<close>

text \<open>
  Numbers. A Python \<open>Decimal\<close> is modelled as a rational number and its arithmetic as
  exact: the special values (NaN, Infinity) and the rounding of the decimal context to 28
  significant digits are outside the model. The one place where the context precision
  raises is kept: \<open>quantize\<close> signals InvalidOperation when the rounded coefficient
  has more than 28 digits. The floats of the price window are rationals too; the
  standard deviation of pandas is a real square root.
\<close>

subsection \<open>Exceptions\<close>

datatype error =
    KeyError
  | ValueError
  | TypeError
  | InvalidOperation
  | ConnectorError string

subsection \<open>Decimal.quantize\<close>

text \<open>The default rounding of the decimal context is ROUND\_HALF\_EVEN.\<close>

definition round_half_even :: "'a::floor_ceiling \<Rightarrow> int" where
  "round_half_even x =
     (let f = \<lfloor>x\<rfloor>; d = x - of_int f
      in if d < 1 / 2 then f
         else if 1 / 2 < d then f + 1
         else if even f then f else f + 1)"

definition decimal_prec :: nat where
  "decimal_prec = 28"

text \<open>
  \<open>x.quantize(Decimal("0.0001"))\<close> is \<open>quantize x 4\<close> and
  \<open>x.quantize(Decimal("0.01"))\<close> is \<open>quantize x 2\<close>: the second argument is the
  number of decimal places of the quantum.
\<close>

definition quantize :: "'a::floor_ceiling \<Rightarrow> nat \<Rightarrow> error + rat" where
  "quantize x places =
     (let n = round_half_even (x * 10 ^ places)
      in if 10 ^ decimal_prec \<le> \<bar>n\<bar> then Inl InvalidOperation
         else Inr (of_int n / 10 ^ places))"

definition has_places :: "rat \<Rightarrow> nat \<Rightarrow> bool" where
  "has_places x places = (of_int \<lfloor>x * 10 ^ places\<rfloor> = x * 10 ^ places)"

subsection \<open>Configuration (class attributes)\<close>

definition exchange_name :: string where
  "exchange_name = ''binance_paper_trade''"

definition pair_name :: string where
  "pair_name = ''BTC-USDT''"

definition order_amount :: rat where
  "order_amount = 1 / 100"

definition base_spread :: rat where
  "base_spread = 5 / 10000"

definition min_spread :: rat where
  "min_spread = 1 / 10000"

definition max_spread :: rat where
  "max_spread = 1 / 100"

definition order_refresh_time :: rat where
  "order_refresh_time = 150"

definition bb_length :: nat where
  "bb_length = 20"

definition bb_std :: real where
  "bb_std = 2"

definition fast_ma :: nat where
  "fast_ma = 10"

definition slow_ma :: nat where
  "slow_ma = 50"

definition target_base_pct :: rat where
  "target_base_pct = 1 / 2"

definition max_skew :: rat where
  "max_skew = 1 / 2"

subsection \<open>SpreadCalculator\<close>

text \<open>The trend is the Python int that \<open>_calc_trend\<close> returns: 1, -1 or 0.\<close>

definition calc_bid_spread :: "rat \<Rightarrow> int \<Rightarrow> rat \<Rightarrow> error + rat" where
  "calc_bid_spread volatility trend inventory_skew =
     (let spread = base_spread;
          volatility_factor = 1 + volatility;
          spread = spread * volatility_factor;
          spread = (if 0 < trend then spread * (8 / 10)
                    else if trend < 0 then spread * (12 / 10)
                    else spread);
          spread = spread * (1 + inventory_skew);
          spread = max spread min_spread;
          spread = min spread max_spread
      in quantize spread 4)"

definition calc_ask_spread :: "rat \<Rightarrow> int \<Rightarrow> rat \<Rightarrow> error + rat" where
  "calc_ask_spread volatility trend inventory_skew =
     (let spread = base_spread;
          volatility_factor = 1 + volatility;
          spread = spread * volatility_factor;
          spread = (if 0 < trend then spread * (12 / 10)
                    else if trend < 0 then spread * (8 / 10)
                    else spread);
          spread = spread * (1 - inventory_skew);
          spread = max spread min_spread;
          spread = min spread max_spread
      in quantize spread 4)"

subsection \<open>The connector (external collaborator)\<close>

text \<open>
  A connector value is the behaviour of the exchange connector at one moment: what each
  of its calls answers, an exception (\<open>Inl\<close>) included. \<open>on_tick\<close> is synchronous,
  so one value serves a whole tick; a refresh that resumes after its \<open>await\<close> meets the
  connector of that later moment.
\<close>

datatype order_type = LIMIT | MARKET

record connector =
  ready :: "error + bool"
  get_mid_price :: "string \<Rightarrow> error + rat option"
  get_balance :: "string \<Rightarrow> error + rat"
  get_available_balance :: "string \<Rightarrow> error + rat"
  cancel_all :: "string \<Rightarrow> error + unit"
  buy :: "string \<Rightarrow> rat \<Rightarrow> order_type \<Rightarrow> rat \<Rightarrow> error + string"
  sell :: "string \<Rightarrow> rat \<Rightarrow> order_type \<Rightarrow> rat \<Rightarrow> error + string"

type_synonym connectors = "string \<rightharpoonup> connector"

subsection \<open>The strategy object\<close>

record order_record =
  side :: string
  price :: rat
  amount :: rat
  time :: rat

text \<open>What the strategy hands to its logger, by level and call site.\<close>

datatype log_entry =
    Info_connector_not_ready
  | Info_indicators rat int rat
  | Info_spreads rat rat
  | Warning_insufficient_balance
  | Error_in_on_tick error
  | Error_canceling_orders error
  | Info_active_orders nat
  | Error_order_refresh error

text \<open>
  \<open>active_orders\<close> is a Python dict: an association list with distinct keys in insertion
  order, updated with \<open>AList.update\<close> (an existing key keeps its place, a new one goes
  last).
\<close>

record strategy =
  price_data :: "rat list"
  last_refresh :: rat
  active_orders :: "(string \<times> order_record) list"
  trade_count :: nat
  debug_mode :: bool
  logged :: "log_entry list"

definition logger :: "log_entry \<Rightarrow> strategy \<Rightarrow> strategy" where
  "logger entry s = s\<lparr>logged := logged s @ [entry]\<rparr>"

subsection \<open>Python helpers\<close>

text \<open>\<open>xs[-n:]\<close>\<close>

definition last_n :: "nat \<Rightarrow> 'a list \<Rightarrow> 'a list" where
  "last_n n xs = (if n = 0 then xs else drop (length xs - n) xs)"

text \<open>\<open>str.split(sep)\<close> for a separator of one character\<close>

fun split_on :: "char \<Rightarrow> string \<Rightarrow> string list" where
  "split_on sep [] = [[]]"
| "split_on sep (c # cs) =
     (if c = sep then [] # split_on sep cs
      else (case split_on sep cs of
              [] \<Rightarrow> [[c]]
            | w # ws \<Rightarrow> (c # w) # ws))"

text \<open>\<open>base, quote = trading_pair.split("-")\<close>\<close>

definition split_pair :: "string \<Rightarrow> error + string \<times> string" where
  "split_pair trading_pair =
     (case split_on CHR ''-'' trading_pair of
        [base, quote] \<Rightarrow> Inr (base, quote)
      | _ \<Rightarrow> Inl ValueError)"

subsection \<open>IndicatorEngine\<close>

text \<open>\<open>np.mean\<close> and \<open>Series.mean\<close>\<close>

definition np_mean :: "'a::field list \<Rightarrow> 'a" where
  "np_mean xs = sum_list xs / of_nat (length xs)"

text \<open>\<open>Series.std\<close>: the sample standard deviation (ddof = 1)\<close>

definition series_std :: "real list \<Rightarrow> real" where
  "series_std xs =
     (let m = np_mean xs
      in sqrt (sum_list (map (\<lambda>x. (x - m) ^ 2) xs) / (of_nat (length xs) - 1)))"

text \<open>
  A zero mean makes the float quotient \<open>inf\<close> or \<open>nan\<close>, which is no decimal number;
  the model raises InvalidOperation there.
\<close>

definition calc_volatility :: "strategy \<Rightarrow> error + rat" where
  "calc_volatility s =
     (if length (price_data s) < bb_length then Inr (5 / 1000)
      else
        let prices = map real_of_rat (last_n bb_length (price_data s));
            mean = np_mean prices;
            stdev = series_std prices;
            upper = mean + stdev * bb_std;
            lower = mean - stdev * bb_std
        in if mean = 0 then Inl InvalidOperation
           else let bandwidth = (upper - lower) / mean
                in quantize bandwidth 4)"

definition calc_trend :: "strategy \<Rightarrow> int" where
  "calc_trend s =
     (if length (price_data s) < slow_ma then 0
      else
        let prices = price_data s;
            fast_ma_val = np_mean (last_n fast_ma prices);
            slow_ma_val = np_mean (last_n slow_ma prices)
        in if slow_ma_val * (1002 / 1000) < fast_ma_val then 1
           else if fast_ma_val < slow_ma_val * (998 / 1000) then - 1
           else 0)"

subsection \<open>InventoryModel\<close>

definition calc_inventory_skew :: "connectors \<Rightarrow> string \<Rightarrow> string \<Rightarrow> error + rat" where
  "calc_inventory_skew connectors exchange trading_pair =
     (case connectors exchange of
        None \<Rightarrow> Inl KeyError
      | Some connector \<Rightarrow>
     (case split_pair trading_pair of
        Inl e \<Rightarrow> Inl e
      | Inr (base, quote) \<Rightarrow>
     (case get_balance connector base of
        Inl e \<Rightarrow> Inl e
      | Inr base_bal \<Rightarrow>
     (case get_balance connector quote of
        Inl e \<Rightarrow> Inl e
      | Inr quote_bal \<Rightarrow>
     (case get_mid_price connector trading_pair of
        Inl e \<Rightarrow> Inl e
      | Inr None \<Rightarrow> Inl TypeError
      | Inr (Some mid_price) \<Rightarrow>
          let total_value = base_bal * mid_price + quote_bal
          in if total_value = 0 then Inr 0
             else
               let current_ratio = base_bal * mid_price / total_value;
                   raw_skew = (current_ratio - target_base_pct) / max_skew;
                   capped_skew = max (min raw_skew 1) (- 1)
               in quantize capped_skew 4)))))"

subsection \<open>QuoteRefresher\<close>

definition check_balance :: "connectors \<Rightarrow> string \<Rightarrow> string \<Rightarrow> error + bool" where
  "check_balance connectors exchange trading_pair =
     (case connectors exchange of
        None \<Rightarrow> Inl KeyError
      | Some connector \<Rightarrow>
     (case split_pair trading_pair of
        Inl e \<Rightarrow> Inl e
      | Inr (base, quote) \<Rightarrow>
     (case get_available_balance connector base of
        Inl e \<Rightarrow> Inl e
      | Inr base_avail \<Rightarrow>
     (case get_available_balance connector quote of
        Inl e \<Rightarrow> Inl e
      | Inr quote_avail \<Rightarrow>
     (case get_mid_price connector trading_pair of
        Inl e \<Rightarrow> Inl e
      | Inr mid_price \<Rightarrow>
          if base_avail < order_amount then Inr False
          else (case mid_price of
                  None \<Rightarrow> Inl TypeError
                | Some mid_price \<Rightarrow>
                    let quote_needed = order_amount * mid_price
                    in if quote_avail < quote_needed then Inr False
                       else Inr True))))))"

text \<open>The arguments of one \<open>_refresh_orders\<close> call.\<close>

record refresh_args =
  arg_exchange :: string
  arg_trading_pair :: string
  arg_mid_price :: rat
  arg_bid_spread :: rat
  arg_ask_spread :: rat

text \<open>
  \<open>_refresh_orders\<close> is a coroutine with one suspension point,
  \<open>await connector.cancel_all(trading_pair)\<close>. \<open>refresh_orders_begin\<close> is its body up
  to there: the connector lookup and the two prices.
\<close>

definition refresh_orders_begin :: "connectors \<Rightarrow> refresh_args \<Rightarrow> error + connector \<times> rat \<times> rat" where
  "refresh_orders_begin connectors a =
     (case connectors (arg_exchange a) of
        None \<Rightarrow> Inl KeyError
      | Some connector \<Rightarrow>
     (case quantize (arg_mid_price a * (1 - arg_bid_spread a)) 2 of
        Inl e \<Rightarrow> Inl e
      | Inr bid_price \<Rightarrow>
     (case quantize (arg_mid_price a * (1 + arg_ask_spread a)) 2 of
        Inl e \<Rightarrow> Inl e
      | Inr ask_price \<Rightarrow> Inr (connector, bid_price, ask_price))))"

text \<open>
  \<open>refresh_orders_resume\<close> is the body from the completion of the awaited call on: the
  inner \<open>try\<close> (the order records are reset only when the cancellation did not raise),
  the two placements and the two records. \<open>now\<close> is \<open>self.current_timestamp\<close>.
\<close>

definition refresh_orders_resume ::
    "connector \<Rightarrow> rat \<Rightarrow> refresh_args \<Rightarrow> rat \<Rightarrow> rat \<Rightarrow> strategy \<Rightarrow> strategy \<times> (error + unit)" where
  "refresh_orders_resume connector now a bid_price ask_price s =
     (let s = (case cancel_all connector (arg_trading_pair a) of
                 Inr _ \<Rightarrow> s\<lparr>active_orders := []\<rparr>
               | Inl e \<Rightarrow> logger (Error_canceling_orders e) s)
      in
     (case buy connector (arg_trading_pair a) order_amount LIMIT bid_price of
        Inl e \<Rightarrow> (s, Inl e)
      | Inr bid_id \<Rightarrow>
     (case sell connector (arg_trading_pair a) order_amount LIMIT ask_price of
        Inl e \<Rightarrow> (s, Inl e)
      | Inr ask_id \<Rightarrow>
          let s = s\<lparr>active_orders :=
                     AList.update bid_id
                       \<lparr>side = ''buy'', price = bid_price, amount = order_amount, time = now\<rparr>
                       (active_orders s)\<rparr>;
              s = s\<lparr>active_orders :=
                     AList.update ask_id
                       \<lparr>side = ''sell'', price = ask_price, amount = order_amount, time = now\<rparr>
                       (active_orders s)\<rparr>;
              s = logger (Info_active_orders (length (active_orders s))) s
          in (s, Inr ()))))"

text \<open>The outer \<open>except Exception\<close> of \<open>_refresh_orders\<close>.\<close>

definition refresh_orders_except :: "strategy \<times> (error + unit) \<Rightarrow> strategy \<times> (error + unit)" where
  "refresh_orders_except r =
     (case r of
        (s, Inl e) \<Rightarrow> (logger (Error_order_refresh e) s, Inr ())
      | (s, Inr u) \<Rightarrow> (s, Inr u))"

text \<open>
  \<open>refresh_orders\<close> is one whole run of the coroutine, with nothing else running between
  its two parts.
\<close>

definition refresh_orders :: "connectors \<Rightarrow> rat \<Rightarrow> refresh_args \<Rightarrow> strategy \<Rightarrow> strategy \<times> (error + unit)" where
  "refresh_orders connectors now a s =
     refresh_orders_except
       (case refresh_orders_begin connectors a of
          Inl e \<Rightarrow> (s, Inl e)
        | Inr (connector, bid_price, ask_price) \<Rightarrow>
            refresh_orders_resume connector now a bid_price ask_price s)"

subsection \<open>on\_tick\<close>

text \<open>
  The body of the \<open>try\<close> of \<open>on_tick\<close>. It returns the strategy as the statements
  executed so far have left it, and either the exception raised or the coroutine handed to
  \<open>asyncio.create_task\<close>, if any.
\<close>

definition on_tick_try :: "connectors \<Rightarrow> rat \<Rightarrow> strategy \<Rightarrow> strategy \<times> (error + refresh_args option)" where
  "on_tick_try connectors now s =
     (if now - last_refresh s < order_refresh_time then (s, Inr None)
      else
        let s = s\<lparr>last_refresh := now\<rparr>;
            exchange = exchange_name;
            pair = pair_name
        in
     (case connectors exchange of
        None \<Rightarrow> (s, Inl KeyError)
      | Some connector \<Rightarrow>
     (case ready connector of
        Inl e \<Rightarrow> (s, Inl e)
      | Inr False \<Rightarrow>
          ((if debug_mode s then logger Info_connector_not_ready s else s), Inr None)
      | Inr True \<Rightarrow>
     (case get_mid_price connector pair of
        Inl e \<Rightarrow> (s, Inl e)
      | Inr None \<Rightarrow> (s, Inr None)
      | Inr (Some mid_price) \<Rightarrow>
          if mid_price = 0 then (s, Inr None)
          else
            let s = s\<lparr>price_data := price_data s @ [mid_price]\<rparr>;
                s = (if 100 < length (price_data s)
                     then s\<lparr>price_data := tl (price_data s)\<rparr> else s)
            in
     (case calc_volatility s of
        Inl e \<Rightarrow> (s, Inl e)
      | Inr vol \<Rightarrow>
          let trend = calc_trend s
          in
     (case calc_inventory_skew connectors exchange pair of
        Inl e \<Rightarrow> (s, Inl e)
      | Inr skew \<Rightarrow>
          let s = logger (Info_indicators vol trend skew) s
          in
     (case calc_bid_spread vol trend skew of
        Inl e \<Rightarrow> (s, Inl e)
      | Inr bid_spread \<Rightarrow>
     (case calc_ask_spread vol trend skew of
        Inl e \<Rightarrow> (s, Inl e)
      | Inr ask_spread \<Rightarrow>
          let s = logger (Info_spreads bid_spread ask_spread) s
          in
     (case check_balance connectors exchange pair of
        Inl e \<Rightarrow> (s, Inl e)
      | Inr True \<Rightarrow>
          (s, Inr (Some \<lparr>arg_exchange = exchange, arg_trading_pair = pair,
                          arg_mid_price = mid_price, arg_bid_spread = bid_spread,
                          arg_ask_spread = ask_spread\<rparr>))
      | Inr False \<Rightarrow>
          (logger Warning_insufficient_balance s, Inr None))))))))))"

text \<open>\<open>on_tick\<close>: the \<open>try\<close> with its \<open>except Exception\<close>.\<close>

definition on_tick :: "connectors \<Rightarrow> rat \<Rightarrow> strategy \<Rightarrow> strategy \<times> (error + refresh_args option)" where
  "on_tick connectors now s =
     (case on_tick_try connectors now s of
        (s, Inl e) \<Rightarrow> (logger (Error_in_on_tick e) s, Inr None)
      | (s, Inr task) \<Rightarrow> (s, Inr task))"

subsection \<open>The event loop\<close>

text \<open>
  \<open>on_tick\<close> hands \<open>_refresh_orders\<close> to \<open>asyncio.create_task\<close> and returns. The
  event loop has one thread: it runs a tick, or it runs one task from where it stands to
  its next suspension point. A task is created, then awaits \<open>cancel_all\<close> with its two
  prices computed, then is gone. \<open>tasks\<close> holds the refreshes that have started and not
  finished.
\<close>

datatype task =
    Created refresh_args
  | Awaiting_cancel_all refresh_args rat rat

record engine =
  strat :: strategy
  tasks :: "task list"

datatype event =
    Tick connectors rat
  | Start nat connectors
  | Complete nat connector rat

definition remove_nth :: "nat \<Rightarrow> 'a list \<Rightarrow> 'a list" where
  "remove_nth i xs = take i xs @ drop (Suc i) xs"

fun step :: "engine \<Rightarrow> event \<Rightarrow> engine" where
  "step e (Tick connectors now) =
     (case on_tick connectors now (strat e) of
        (s, Inr (Some a)) \<Rightarrow> e\<lparr>strat := s, tasks := tasks e @ [Created a]\<rparr>
      | (s, _) \<Rightarrow> e\<lparr>strat := s\<rparr>)"
| "step e (Start i connectors) =
     (if i < length (tasks e) then
        (case tasks e ! i of
           Created a \<Rightarrow>
             (case refresh_orders_begin connectors a of
                Inl err \<Rightarrow>
                  e\<lparr>strat := fst (refresh_orders_except (strat e, Inl err)),
                    tasks := remove_nth i (tasks e)\<rparr>
              | Inr (connector, bid_price, ask_price) \<Rightarrow>
                  e\<lparr>tasks := (tasks e)[i := Awaiting_cancel_all a bid_price ask_price]\<rparr>)
         | Awaiting_cancel_all a bid_price ask_price \<Rightarrow> e)
      else e)"
| "step e (Complete i connector now) =
     (if i < length (tasks e) then
        (case tasks e ! i of
           Created a \<Rightarrow> e
         | Awaiting_cancel_all a bid_price ask_price \<Rightarrow>
             e\<lparr>strat := fst (refresh_orders_except
                            (refresh_orders_resume connector now a bid_price ask_price (strat e))),
               tasks := remove_nth i (tasks e)\<rparr>)
      else e)"

definition run :: "engine \<Rightarrow> event list \<Rightarrow> engine" where
  "run = foldl step"

subsection \<open>Concrete collaborators and states\<close>

text \<open>
  A connector that is ready, quotes 80000, holds one BTC and 80000 USDT, and answers the
  cancellation and the two placements as given.
\<close>

definition stub_connector :: "error + unit \<Rightarrow> error + string \<Rightarrow> error + string \<Rightarrow> connector" where
  "stub_connector cancel_result buy_result sell_result =
     \<lparr>ready = Inr True,
      get_mid_price = (\<lambda>_. Inr (Some 80000)),
      get_balance = (\<lambda>asset. Inr (if asset = ''BTC'' then 1 else 80000)),
      get_available_balance = (\<lambda>asset. Inr (if asset = ''BTC'' then 1 else 80000)),
      cancel_all = (\<lambda>_. cancel_result),
      buy = (\<lambda>_ _ _ _. buy_result),
      sell = (\<lambda>_ _ _ _. sell_result)\<rparr>"

definition stub_connectors :: "error + unit \<Rightarrow> error + string \<Rightarrow> error + string \<Rightarrow> connectors" where
  "stub_connectors cancel_result buy_result sell_result =
     [exchange_name \<mapsto> stub_connector cancel_result buy_result sell_result]"

text \<open>
  The same connector with no BTC and 10000 USDT, of which 0.005 BTC and 10000 USDT are
  available.
\<close>

definition underfunded_connector :: connector where
  "underfunded_connector =
     (stub_connector (Inr ()) (Inr ''bid-1'') (Inr ''ask-1''))
       \<lparr>get_balance := (\<lambda>asset. Inr (if asset = ''BTC'' then 0 else 10000)),
        get_available_balance := (\<lambda>asset. Inr (if asset = ''BTC'' then 5 / 1000 else 10000))\<rparr>"

text \<open>The strategy after a hundred refreshes at a mid price of 80000, with no order recorded.\<close>

definition flat_strategy :: strategy where
  "flat_strategy =
     \<lparr>price_data = replicate 100 80000, last_refresh = 0, active_orders = [],
      trade_count = 0, debug_mode = True, logged = []\<rparr>"

definition stale_order :: order_record where
  "stale_order = \<lparr>side = ''buy'', price = 79000, amount = 1 / 100, time = 150\<rparr>"

definition stub_args :: refresh_args where
  "stub_args =
     \<lparr>arg_exchange = exchange_name, arg_trading_pair = pair_name, arg_mid_price = 80000,
      arg_bid_spread = 5 / 10000, arg_ask_spread = 5 / 10000\<rparr>"




definition flat_engine :: engine where
  "flat_engine = \<lparr>strat = flat_strategy, tasks = []\<rparr>"

section \<open>Rounding\<close>

lemma round_half_even_cases:
  "round_half_even x = \<lfloor>x\<rfloor> \<or> round_half_even x = \<lfloor>x\<rfloor> + 1"
  by (simp add: round_half_even_def Let_def)

lemma round_half_even_of_int [simp]: "round_half_even (of_int k) = k"
  by (simp add: round_half_even_def)

lemma round_half_even_lower:
  assumes "of_int a \<le> x"
  shows "a \<le> round_half_even x"
proof -
  have "a \<le> \<lfloor>x\<rfloor>" using assms by (simp add: le_floor_iff)
  then show ?thesis using round_half_even_cases [of x] by auto
qed

lemma round_half_even_upper:
  assumes "x \<le> of_int b"
  shows "round_half_even x \<le> b"
proof (cases "x = of_int b")
  case True
  then show ?thesis by simp
next
  case False
  with assms have "x < of_int b" by simp
  then have "\<lfloor>x\<rfloor> < b" by (simp add: floor_less_iff)
  then show ?thesis using round_half_even_cases [of x] by auto
qed


lemma has_places_of_int: "has_places (of_int n / 10 ^ p) p"
  by (simp add: has_places_def)

lemma quantize_between:
  fixes x :: "'a::floor_ceiling"
  assumes "of_int a \<le> x * 10 ^ p" and "x * 10 ^ p \<le> of_int b"
    and "\<bar>a\<bar> < 10 ^ decimal_prec" and "\<bar>b\<bar> < 10 ^ decimal_prec"
  shows "\<exists>n. quantize x p = Inr (of_int n / 10 ^ p) \<and> a \<le> n \<and> n \<le> b"
proof -
  let ?n = "round_half_even (x * 10 ^ p)"
  have lo: "a \<le> ?n" using assms(1) by (rule round_half_even_lower)
  have hi: "?n \<le> b" using assms(2) by (rule round_half_even_upper)
  have "\<bar>?n\<bar> < 10 ^ decimal_prec" using lo hi assms(3,4) by linarith
  then have "quantize x p = Inr (of_int ?n / 10 ^ p)"
    by (simp add: quantize_def Let_def)
  then show ?thesis using lo hi by blast
qed

section \<open>SpreadCalculator\<close>

lemma quantize_spread:
  fixes x :: rat
  assumes "min_spread \<le> x" "x \<le> max_spread"
  shows "\<exists>r. quantize x 4 = Inr r \<and> min_spread \<le> r \<and> r \<le> max_spread \<and> has_places r 4"
proof -
  have "of_int 1 \<le> x * 10 ^ 4" "x * 10 ^ 4 \<le> of_int 100"
    using assms by (simp_all add: min_spread_def max_spread_def)
  then obtain n where n: "quantize x 4 = Inr (of_int n / 10 ^ 4)" "1 \<le> n" "n \<le> 100"
    using quantize_between [of 1 x 4 100] by (auto simp: decimal_prec_def)
  have "min_spread \<le> of_int n / 10 ^ 4" "of_int n / 10 ^ 4 \<le> max_spread"
    using n(2,3) by (simp_all add: min_spread_def max_spread_def)
  then show ?thesis using n(1) has_places_of_int [of n 4] by blast
qed

lemma clamp_spread:
  "min_spread \<le> min (max x min_spread) max_spread
   \<and> min (max x min_spread) max_spread \<le> max_spread"
  by (simp add: min_spread_def max_spread_def)

text \<open>
  C1. Whatever the volatility, the trend and the inventory skew are, \<open>_calc_bid_spread\<close>
  and \<open>_calc_ask_spread\<close> return (they do not raise), and what they return lies in
  \<open>[min_spread, max_spread]\<close> and has four decimal places. The bounds the claim puts on
  the volatility and the skew are not needed.
\<close>

theorem spreads_clamped_and_rounded:
  "\<exists>b a. calc_bid_spread volatility trend inventory_skew = Inr b
      \<and> calc_ask_spread volatility trend inventory_skew = Inr a
      \<and> min_spread \<le> b \<and> b \<le> max_spread \<and> has_places b 4
      \<and> min_spread \<le> a \<and> a \<le> max_spread \<and> has_places a 4"
proof -
  obtain b where "calc_bid_spread volatility trend inventory_skew = Inr b"
    "min_spread \<le> b" "b \<le> max_spread" "has_places b 4"
    unfolding calc_bid_spread_def Let_def
    using quantize_spread clamp_spread by blast
  moreover obtain a where "calc_ask_spread volatility trend inventory_skew = Inr a"
    "min_spread \<le> a" "a \<le> max_spread" "has_places a 4"
    unfolding calc_ask_spread_def Let_def
    using quantize_spread clamp_spread by blast
  ultimately show ?thesis by blast
qed

text \<open>
  C10. The ask spread is the bid spread of the opposite trend and the opposite skew.
\<close>

theorem ask_is_mirrored_bid:
  "calc_ask_spread volatility trend inventory_skew =
   calc_bid_spread volatility (- trend) (- inventory_skew)"
  by (simp add: calc_ask_spread_def calc_bid_spread_def Let_def)

section \<open>IndicatorEngine\<close>

text \<open>
  C7. A price window with fewer than \<open>bb_length\<close> samples makes \<open>_calc_volatility\<close>
  return the constant 0.005; it does not raise.
\<close>

theorem short_window_volatility_fallback:
  "length (price_data s) < bb_length \<Longrightarrow> calc_volatility s = Inr (5 / 1000)"
  by (simp add: calc_volatility_def)

text \<open>
  C7 at a window of two prices.
\<close>

theorem short_window_volatility_fallback_witness:
  "length (price_data (flat_strategy\<lparr>price_data := [80000, 80010]\<rparr>)) < bb_length
   \<and> calc_volatility (flat_strategy\<lparr>price_data := [80000, 80010]\<rparr>) = Inr (5 / 1000)"
  using short_window_volatility_fallback [of "flat_strategy\<lparr>price_data := [80000, 80010]\<rparr>"]
  by (simp add: bb_length_def)













section \<open>InventoryModel\<close>

lemma split_pair_name [simp]: "split_pair pair_name = Inr (''BTC'', ''USDT'')"
  by (simp add: split_pair_def pair_name_def)




section \<open>on\_tick\<close>

lemma check_balance_insufficient:
  assumes "connectors exchange_name = Some c"
    and "get_available_balance c ''BTC'' = Inr base_avail"
    and "get_available_balance c ''USDT'' = Inr quote_avail"
    and "get_mid_price c pair_name = Inr (Some mid)"
    and "base_avail < order_amount \<or> quote_avail < order_amount * mid"
  shows "check_balance connectors exchange_name pair_name = Inr False"
  using assms by (auto simp: check_balance_def Let_def)

lemma on_tick_try_task:
  assumes "on_tick_try connectors now s = (s', Inr (Some a))"
  shows "check_balance connectors exchange_name pair_name = Inr True
         \<and> order_refresh_time \<le> now - last_refresh s \<and> last_refresh s' = now"
  using assms
  by (auto simp: on_tick_try_def Let_def logger_def
      split: if_splits option.splits sum.splits bool.splits)

lemma on_tick_try_active_orders:
  "active_orders (fst (on_tick_try connectors now s)) = active_orders s"
  by (auto simp: on_tick_try_def Let_def logger_def
      split: if_splits option.splits sum.splits bool.splits)

lemma on_tick_cases:
  "on_tick connectors now s =
     (case snd (on_tick_try connectors now s) of
        Inl e \<Rightarrow> (logger (Error_in_on_tick e) (fst (on_tick_try connectors now s)), Inr None)
      | Inr task \<Rightarrow> (fst (on_tick_try connectors now s), Inr task))"
  by (simp add: on_tick_def split: prod.splits sum.splits)

lemma on_tick_active_orders:
  "active_orders (fst (on_tick connectors now s)) = active_orders s"
  using on_tick_try_active_orders [of connectors now s]
  by (simp add: on_tick_cases logger_def split: sum.splits)

lemma on_tick_task:
  assumes "on_tick connectors now s = (s', Inr (Some a))"
  shows "on_tick_try connectors now s = (s', Inr (Some a))"
  using assms by (simp add: on_tick_def split: prod.splits sum.splits)

lemma on_tick_returns: "\<exists>s' task. on_tick connectors now s = (s', Inr task)"
  by (simp add: on_tick_def split: prod.splits sum.splits)


lemma on_tick_logs_exception:
  assumes "on_tick_try connectors now s = (s', Inl e)"
  shows "on_tick connectors now s = (logger (Error_in_on_tick e) s', Inr None)"
  using assms by (simp add: on_tick_def)

lemma on_tick_try_can_raise:
  "on_tick_try
     [exchange_name \<mapsto> (stub_connector (Inr ()) (Inr ''bid-1'') (Inr ''ask-1''))
        \<lparr>get_mid_price := (\<lambda>_. Inl (ConnectorError ''timeout''))\<rparr>]
     150 flat_strategy
   = (flat_strategy\<lparr>last_refresh := 150\<rparr>, Inl (ConnectorError ''timeout''))"
  by (simp add: on_tick_try_def stub_connector_def flat_strategy_def order_refresh_time_def
      Let_def)


text \<open>
  C8. When the available base balance is below \<open>order_amount\<close>, or the available
  quote balance is below \<open>order_amount * mid_price\<close>, \<open>_check_balance\<close> answers False,
  \<open>on_tick\<close> creates no refresh task, leaves the order records as they are, and the event
  loop has no more tasks than before the tick.
\<close>

theorem insufficient_balance_skips_refresh:
  assumes "connectors exchange_name = Some c"
    and "get_available_balance c ''BTC'' = Inr base_avail"
    and "get_available_balance c ''USDT'' = Inr quote_avail"
    and "get_mid_price c pair_name = Inr (Some mid)"
    and "base_avail < order_amount \<or> quote_avail < order_amount * mid"
  shows "check_balance connectors exchange_name pair_name = Inr False
         \<and> snd (on_tick connectors now s) = Inr None
         \<and> active_orders (fst (on_tick connectors now s)) = active_orders s
         \<and> tasks (step e (Tick connectors now)) = tasks e"
proof -
  have cb: "check_balance connectors exchange_name pair_name = Inr False"
    using assms by (rule check_balance_insufficient)
  obtain s' task where r: "on_tick connectors now s = (s', Inr task)"
    using on_tick_returns by blast
  have "task = None"
  proof (cases task)
    case (Some a)
    then show ?thesis using on_tick_try_task [OF on_tick_task] r cb by fastforce
  qed simp
  then have 1: "snd (on_tick connectors now s) = Inr None" using r by simp
  obtain s2 task2 where r2: "on_tick connectors now (strat e) = (s2, Inr task2)"
    using on_tick_returns by blast
  have "task2 = None"
  proof (cases task2)
    case (Some a)
    then show ?thesis using on_tick_try_task [OF on_tick_task] r2 cb by fastforce
  qed simp
  then have 2: "tasks (step e (Tick connectors now)) = tasks e" using r2 by simp
  show ?thesis using cb 1 2 on_tick_active_orders by blast
qed

text \<open>
  C8 at the scenario of the specification: \<open>order_amount\<close> is 0.01 and 0.005 of the base
  asset is available.
\<close>

theorem insufficient_balance_skips_refresh_witness:
  "check_balance [exchange_name \<mapsto> underfunded_connector] exchange_name pair_name = Inr False
   \<and> snd (on_tick [exchange_name \<mapsto> underfunded_connector] 150 flat_strategy) = Inr None
   \<and> active_orders (fst (on_tick [exchange_name \<mapsto> underfunded_connector] 150 flat_strategy)) = []
   \<and> tasks (step \<lparr>strat = flat_strategy, tasks = []\<rparr>
               (Tick [exchange_name \<mapsto> underfunded_connector] 150)) = []"
  using insufficient_balance_skips_refresh
    [of "[exchange_name \<mapsto> underfunded_connector]" underfunded_connector "5 / 1000" 10000 80000
        150 flat_strategy "\<lparr>strat = flat_strategy, tasks = []\<rparr>"]
  by (simp add: underfunded_connector_def stub_connector_def order_amount_def flat_strategy_def)

section \<open>\_refresh\_orders\<close>

lemma refresh_orders_resumed:
  assumes "refresh_orders_begin connectors a = Inr (c, bid_price, ask_price)"
  shows "refresh_orders connectors now a s =
           refresh_orders_except (refresh_orders_resume c now a bid_price ask_price s)"
  using assms by (simp add: refresh_orders_def)

lemma stub_begin:
  "refresh_orders_begin (stub_connectors cr br sr) stub_args =
     Inr (stub_connector cr br sr, 79960, 80040)"
  by (simp add: refresh_orders_begin_def stub_connectors_def stub_args_def quantize_def
      round_half_even_def decimal_prec_def Let_def)

text \<open>
  C2, as the code has it. When \<open>cancel_all\<close> raises and both placements succeed, the
  order records after the refresh are the records from before it with the two new orders
  written into them: \<open>self.active_orders = {}\<close> comes after the awaited call inside the
  inner \<open>try\<close>, so a failed cancellation leaves the old records in place.
\<close>

theorem cancel_failure_keeps_old_records:
  assumes "refresh_orders_begin connectors a = Inr (c, bid_price, ask_price)"
    and "cancel_all c (arg_trading_pair a) = Inl e"
    and "buy c (arg_trading_pair a) order_amount LIMIT bid_price = Inr bid_id"
    and "sell c (arg_trading_pair a) order_amount LIMIT ask_price = Inr ask_id"
  shows "active_orders (fst (refresh_orders connectors now a s)) =
           AList.update ask_id
             \<lparr>side = ''sell'', price = ask_price, amount = order_amount, time = now\<rparr>
             (AList.update bid_id
                \<lparr>side = ''buy'', price = bid_price, amount = order_amount, time = now\<rparr>
                (active_orders s))"
  using assms(2-4)
  by (simp add: refresh_orders_resumed [OF assms(1)] refresh_orders_resume_def
      refresh_orders_except_def logger_def Let_def)

text \<open>
  C2 at a strategy that holds one record when the cancellation fails.
\<close>

theorem cancel_failure_keeps_old_records_witness:
  "active_orders (fst (refresh_orders
      (stub_connectors (Inl (ConnectorError ''cancel failed'')) (Inr ''bid-1'') (Inr ''ask-1''))
      300 stub_args (flat_strategy\<lparr>active_orders := [(''stale-1'', stale_order)]\<rparr>)))
   = [(''stale-1'', stale_order),
      (''bid-1'', \<lparr>side = ''buy'', price = 79960, amount = order_amount, time = 300\<rparr>),
      (''ask-1'', \<lparr>side = ''sell'', price = 80040, amount = order_amount, time = 300\<rparr>)]"
  using cancel_failure_keeps_old_records
    [OF stub_begin, of "Inl (ConnectorError ''cancel failed'')" "Inr ''bid-1''" "Inr ''ask-1''"
       "ConnectorError ''cancel failed''" "''bid-1''" "''ask-1''" 300
       "flat_strategy\<lparr>active_orders := [(''stale-1'', stale_order)]\<rparr>"]
  by (simp add: stub_connector_def stub_args_def flat_strategy_def)

text \<open>
  The claim C2 as the specification words it fails: the cancellation raises, both
  placements succeed, and the records afterwards are three, the old one among them.
\<close>

theorem cancel_failure_counterexample:
  "cancel_all (stub_connector (Inl (ConnectorError ''cancel failed'')) (Inr ''bid-1'') (Inr ''ask-1''))
     pair_name = Inl (ConnectorError ''cancel failed'')
   \<and> map fst (active_orders (fst (refresh_orders
        (stub_connectors (Inl (ConnectorError ''cancel failed'')) (Inr ''bid-1'') (Inr ''ask-1''))
        300 stub_args (flat_strategy\<lparr>active_orders := [(''stale-1'', stale_order)]\<rparr>))))
     = [''stale-1'', ''bid-1'', ''ask-1'']"
  unfolding refresh_orders_resumed [OF stub_begin]
  by (simp add: refresh_orders_resume_def refresh_orders_except_def
      stub_connector_def stub_args_def logger_def flat_strategy_def Let_def)




section \<open>The event loop\<close>

lemma flat_window_kept: "tl (replicate 100 c @ [c]) = replicate 100 c"
  by (simp add: replicate_append_same)

lemma np_mean_replicate:
  fixes c :: "'a::field_char_0"
  assumes "0 < n"
  shows "np_mean (replicate n c) = c"
  using assms by (simp add: np_mean_def sum_list_replicate)

lemma last_n_replicate: "0 < n \<Longrightarrow> n \<le> m \<Longrightarrow> last_n n (replicate m c) = replicate n c"
  by (simp add: last_n_def)

lemma calc_volatility_flat:
  assumes "price_data s = replicate 100 c" and "c \<noteq> 0"
  shows "calc_volatility s = Inr 0"
proof -
  let ?ps = "replicate 20 (real_of_rat c)"
  have ps: "map real_of_rat (last_n bb_length (price_data s)) = ?ps"
    by (simp add: assms(1) bb_length_def last_n_replicate)
  have m: "np_mean ?ps = real_of_rat c" by (simp add: np_mean_replicate)
  have sd: "series_std ?ps = 0" by (simp add: series_std_def m Let_def sum_list_replicate)
  have q: "quantize (0::real) 4 = Inr 0"
    by (simp add: quantize_def round_half_even_def decimal_prec_def)
  show ?thesis
    using assms(2)
    by (simp add: calc_volatility_def assms(1) bb_length_def
        ps [unfolded bb_length_def assms(1)] m sd q Let_def)
qed

lemma calc_trend_flat:
  assumes "price_data s = replicate 100 c" and "0 < c"
  shows "calc_trend s = 0"
  using assms(2)
  by (simp add: calc_trend_def assms(1) slow_ma_def fast_ma_def last_n_replicate
      np_mean_replicate Let_def)

lemma stub_skew:
  "calc_inventory_skew (stub_connectors cr br sr) exchange_name pair_name = Inr 0"
  by (simp add: calc_inventory_skew_def stub_connectors_def stub_connector_def Let_def
      target_base_pct_def max_skew_def quantize_def round_half_even_def decimal_prec_def)

lemma stub_balance:
  "check_balance (stub_connectors cr br sr) exchange_name pair_name = Inr True"
  by (simp add: check_balance_def stub_connectors_def stub_connector_def Let_def order_amount_def)

lemma flat_spreads:
  "calc_bid_spread 0 0 0 = Inr (5 / 10000)" "calc_ask_spread 0 0 0 = Inr (5 / 10000)"
  by (simp_all add: calc_bid_spread_def calc_ask_spread_def base_spread_def min_spread_def
      max_spread_def quantize_def round_half_even_def decimal_prec_def Let_def)

lemma on_tick_flat:
  assumes "price_data s = replicate 100 80000" and "order_refresh_time \<le> now - last_refresh s"
  shows "on_tick (stub_connectors cr br sr) now s =
           (s\<lparr>last_refresh := now,
               logged := logged s @ [Info_indicators 0 0 0, Info_spreads (5 / 10000) (5 / 10000)]\<rparr>,
            Inr (Some stub_args))"
proof -
  let ?s = "s\<lparr>last_refresh := now\<rparr>"
  have keep: "s\<lparr>last_refresh := now, price_data := replicate 100 80000\<rparr> = ?s"
    using assms(1) by (cases s) simp
  have v: "calc_volatility x = Inr 0" if "price_data x = replicate 100 80000" for x
    using that by (rule calc_volatility_flat) simp
  have t: "calc_trend x = 0" if "price_data x = replicate 100 80000" for x
    using that by (rule calc_trend_flat) simp
  have c: "stub_connectors cr br sr exchange_name = Some (stub_connector cr br sr)"
    by (simp add: stub_connectors_def)
  have r: "ready (stub_connector cr br sr) = Inr True"
    "get_mid_price (stub_connector cr br sr) pair_name = Inr (Some 80000)"
    by (simp_all add: stub_connector_def)
  have gate: "\<not> now - last_refresh s < order_refresh_time" using assms(2) by simp
  have "on_tick_try (stub_connectors cr br sr) now s =
          (logger (Info_spreads (5 / 10000) (5 / 10000)) (logger (Info_indicators 0 0 0) ?s),
           Inr (Some stub_args))"
    unfolding on_tick_try_def
    by (simp add: gate c r Let_def assms(1) flat_window_kept keep v t stub_skew flat_spreads
        stub_balance stub_args_def)
  then show ?thesis by (simp add: on_tick_def logger_def)
qed

text \<open>
  C9, as the code has it. A tick starts a refresh only when at least
  \<open>order_refresh_time\<close> has passed since \<open>last_refresh\<close>, and it then sets
  \<open>last_refresh\<close> to its own timestamp. Nothing else separates two refreshes: what the
  tick does to the strategy, and whether it starts a refresh, is the same whatever
  refreshes are outstanding.
\<close>

theorem refresh_gated_by_time_alone:
  "(tasks (step e (Tick connectors now)) = tasks e
    \<or> (\<exists>a. tasks (step e (Tick connectors now)) = tasks e @ [Created a]
          \<and> order_refresh_time \<le> now - last_refresh (strat e)
          \<and> last_refresh (strat (step e (Tick connectors now))) = now))
   \<and> strat (step (e\<lparr>tasks := ts\<rparr>) (Tick connectors now)) = strat (step e (Tick connectors now))
   \<and> drop (length ts) (tasks (step (e\<lparr>tasks := ts\<rparr>) (Tick connectors now)))
       = drop (length (tasks e)) (tasks (step e (Tick connectors now)))"
proof -
  obtain s' task where r: "on_tick connectors now (strat e) = (s', Inr task)"
    using on_tick_returns by blast
  show ?thesis
  proof (cases task)
    case None
    then show ?thesis using r by simp
  next
    case (Some a)
    then have "order_refresh_time \<le> now - last_refresh (strat e) \<and> last_refresh s' = now"
      using on_tick_try_task [OF on_tick_task] r by blast
    then show ?thesis using r Some by simp
  qed
qed

text \<open>
  The claim C9 as the specification words it fails: the refresh started by the tick at 150
  still awaits \<open>cancel_all\<close> when the tick at 300 starts another one for the same
  pair.
\<close>

theorem overlapping_refreshes_counterexample:
  "tasks (run flat_engine
       [Tick (stub_connectors (Inr ()) (Inr ''bid-1'') (Inr ''ask-1'')) 150,
        Start 0 (stub_connectors (Inr ()) (Inr ''bid-1'') (Inr ''ask-1'')),
        Tick (stub_connectors (Inr ()) (Inr ''bid-1'') (Inr ''ask-1'')) 300])
   = [Awaiting_cancel_all stub_args 79960 80040, Created stub_args]"
proof -
  let ?c = "stub_connectors (Inr ()) (Inr ''bid-1'') (Inr ''ask-1'')"
  have b: "refresh_orders_begin ?c stub_args
             = Inr (stub_connector (Inr ()) (Inr ''bid-1'') (Inr ''ask-1''), 79960, 80040)"
    by (simp add: refresh_orders_begin_def stub_connectors_def stub_args_def quantize_def
      round_half_even_def decimal_prec_def Let_def)
  show ?thesis
    by (simp add: run_def flat_engine_def on_tick_flat b flat_strategy_def order_refresh_time_def)
qed

end
